theory Spec2Isabelle
  imports Complex_Main
begin

section \<open>Tax regime comparator: the calculator of taxyman.py\<close>

text \<open>
  The program computes the progressive slab tax of an annual income under two
  schedules (2024-25 and 2025-26), compares them, and tabulates the comparison at every
  one-lakh boundary up to the income.

  Amounts are Python numbers (\<^verbatim>\<open>int\<close> or \<^verbatim>\<open>float\<close>). They are
  modelled as exact reals: the rates \<^verbatim>\<open>0.05\<close>, \<^verbatim>\<open>0.10\<close>, ... are the decimal
  fractions they denote and the rounding of IEEE doubles is not modelled. The only
  non-finite number of the program, \<^verbatim>\<open>float('inf')\<close>, is a constructor of its own.
  Display formatting (\<^verbatim>\<open>format_indian\<close>, the HTML and the charts) is not modelled:
  the records below hold the numbers that are formatted.
\<close>

subsection \<open>Numbers\<close>

text \<open>A slab's upper bound is a number or \<^verbatim>\<open>float('inf')\<close>; so is \<^verbatim>\<open>prev_slab\<close>.\<close>

datatype slab_bound = Upto real | Unbounded

text \<open>\<^verbatim>\<open>min(income, slab)\<close> for a finite income: \<^verbatim>\<open>min(x, inf)\<close> is \<^verbatim>\<open>x\<close>.\<close>

definition min_bound :: "real \<Rightarrow> slab_bound \<Rightarrow> real" where
  "min_bound income slab = (case slab of Upto s \<Rightarrow> min income s | Unbounded \<Rightarrow> income)"

datatype py_error = ZeroDivisionError

text \<open>Python's \<^verbatim>\<open>a / b\<close> raises ZeroDivisionError when \<^verbatim>\<open>b\<close> is \<^verbatim>\<open>0\<close> or \<^verbatim>\<open>0.0\<close>.\<close>

definition py_truediv :: "real \<Rightarrow> real \<Rightarrow> py_error + real" where
  "py_truediv a b = (if b = 0 then Inl ZeroDivisionError else Inr (a / b))"

text \<open>\<^verbatim>\<open>int(x)\<close> truncates towards zero.\<close>

definition py_int :: "real \<Rightarrow> int" where
  "py_int x = (if 0 \<le> x then \<lfloor>x\<rfloor> else \<lceil>x\<rceil>)"

text \<open>
  \<^verbatim>\<open>range(start, stop, step)\<close> for a positive step, the only one the program uses:
  \<^verbatim>\<open>start, start + step, ...\<close> while below \<^verbatim>\<open>stop\<close>.
\<close>

function py_range :: "int \<Rightarrow> int \<Rightarrow> int \<Rightarrow> int list" where
  "py_range i stop step =
     (if 0 < step \<and> i < stop then i # py_range (i + step) stop step else [])"
  by pat_completeness auto
termination
  by (relation "measure (\<lambda>(i, stop, step). nat (stop - i))") auto

declare py_range.simps [simp del]

subsection \<open>The slab walk: \<^verbatim>\<open>calculate_tax\<close>\<close>

text \<open>
  One row of the breakdown. \<^verbatim>\<open>"Slab Range"\<close> is the pair
  \<^verbatim>\<open>(prev_slab, slab)\<close> the label is formatted from, \<^verbatim>\<open>"Rate"\<close> the rate the
  percentage is formatted from.
\<close>

record breakdown_line =
  Slab_Range :: "slab_bound \<times> slab_bound"
  Taxable_Amount :: real
  Rate :: real
  Tax :: real

text \<open>
  The \<^verbatim>\<open>for slab, rate in slabs\<close> loop, on the state
  \<^verbatim>\<open>(tax, prev_slab, breakdown)\<close>. The guard \<^verbatim>\<open>income > prev_slab\<close> is false
  once \<^verbatim>\<open>prev_slab\<close> is infinite; \<^verbatim>\<open>prev_slab = slab\<close> stands inside the
  \<^verbatim>\<open>if\<close>, so a slab that is not entered changes nothing.
\<close>

fun calculate_tax_loop ::
  "real \<Rightarrow> (slab_bound \<times> real) list \<Rightarrow> real \<times> slab_bound \<times> breakdown_line list
    \<Rightarrow> real \<times> breakdown_line list" where
  "calculate_tax_loop income [] (tax, prev_slab, breakdown) = (tax, breakdown)"
| "calculate_tax_loop income ((slab, rate) # slabs) (tax, prev_slab, breakdown) =
     (case prev_slab of
        Unbounded \<Rightarrow> calculate_tax_loop income slabs (tax, prev_slab, breakdown)
      | Upto p \<Rightarrow>
          if income > p then
            (let slab_amount = min_bound income slab - p;
                 slab_tax = slab_amount * rate
             in calculate_tax_loop income slabs
                  (tax + slab_tax, slab,
                   breakdown @ [\<lparr>Slab_Range = (prev_slab, slab), Taxable_Amount = slab_amount,
                                  Rate = rate, Tax = slab_tax\<rparr>]))
          else calculate_tax_loop income slabs (tax, prev_slab, breakdown))"

definition calculate_tax ::
  "real \<Rightarrow> (slab_bound \<times> real) list \<Rightarrow> real \<times> breakdown_line list" where
  "calculate_tax income slabs = calculate_tax_loop income slabs (0, Upto 0, [])"

subsection \<open>The two regimes\<close>

definition slabs_2024_25 :: "(slab_bound \<times> real) list" where
  "slabs_2024_25 =
     [(Upto 300000, 0), (Upto 700000, 0.05), (Upto 1000000, 0.10), (Upto 1200000, 0.15),
      (Upto 1500000, 0.20), (Unbounded, 0.30)]"

definition slabs_2025_26 :: "(slab_bound \<times> real) list" where
  "slabs_2025_26 =
     [(Upto 400000, 0), (Upto 800000, 0.05), (Upto 1200000, 0.10), (Upto 1600000, 0.15),
      (Upto 2000000, 0.20), (Upto 2400000, 0.25), (Unbounded, 0.30)]"

definition calculate_new_regime_2024_25 :: "real \<Rightarrow> real \<times> breakdown_line list" where
  "calculate_new_regime_2024_25 income =
     (let taxable_income = max (income - 75000) 0
      in calculate_tax taxable_income slabs_2024_25)"

definition calculate_new_regime_2025_26 :: "real \<Rightarrow> real \<times> breakdown_line list" where
  "calculate_new_regime_2025_26 income =
     (let taxable_income = max (income - 75000) 0
      in calculate_tax taxable_income slabs_2025_26)"

subsection \<open>The comparison and the bracket sweep: \<^verbatim>\<open>tax_calculator\<close>\<close>

text \<open>The text chosen inside the recommendation bar.\<close>

definition recommendation :: "real \<Rightarrow> string" where
  "recommendation savings =
     (if savings > 0 then ''Switch to 2025-26 Regime'' else ''Stick to 2024-25 Regime'')"

text \<open>
  One row of the savings table; \<^verbatim>\<open>"Income Bracket"\<close> is the pair
  \<^verbatim>\<open>(bracket, bracket + 100_000)\<close> the label is formatted from.
\<close>

record bracket_row =
  Income_Bracket :: "int \<times> int"
  Tax_2024_25 :: real
  Tax_2025_26 :: real
  Savings :: real

definition income_brackets :: "real \<Rightarrow> int list" where
  "income_brackets income = py_range 0 (py_int income + 100000) 100000"

definition bracket_savings :: "real \<Rightarrow> bracket_row list" where
  "bracket_savings income =
     map (\<lambda>bracket.
            let old_tax_bracket = fst (calculate_new_regime_2024_25 (real_of_int bracket));
                new_tax_bracket = fst (calculate_new_regime_2025_26 (real_of_int bracket))
            in \<lparr>Income_Bracket = (bracket, bracket + 100000),
                Tax_2024_25 = old_tax_bracket,
                Tax_2025_26 = new_tax_bracket,
                Savings = old_tax_bracket - new_tax_bracket\<rparr>)
         (income_brackets income)"

text \<open>\<^verbatim>\<open>df.sum(numeric_only=True)\<close>: the sums of the two numeric columns.\<close>

definition grand_total :: "breakdown_line list \<Rightarrow> real \<times> real" where
  "grand_total df = (sum_list (map Taxable_Amount df), sum_list (map Tax df))"

text \<open>
  What the seven returned widgets are rendered from: the recommendation and the
  figures of the two HTML blocks, the two breakdown tables with their grand-total
  rows, and the savings table.
\<close>

record comparison =
  Recommendation :: string
  Tax_Old :: real
  Tax_New :: real
  Total_Savings :: real
  Savings_Percent :: real
  Old_Table :: "breakdown_line list"
  Old_Grand_Total :: "real \<times> real"
  New_Table :: "breakdown_line list"
  New_Grand_Total :: "real \<times> real"
  Savings_Table :: "bracket_row list"

text \<open>
  The function returns either the error message (followed by no-op updates of the
  widgets; the cross mark that starts the message is left out) or the rendered results.
  The percentage \<^verbatim>\<open>savings/old_tax*100\<close> of the recommendation bar is computed
  before anything else is rendered, and the division can raise.
\<close>

datatype calculator_return = Invalid_Input string | Results comparison

definition tax_calculator :: "real option \<Rightarrow> py_error + calculator_return" where
  "tax_calculator income_opt =
     (case income_opt of
        None \<Rightarrow> Inr (Invalid_Input ''Error: Invalid income input!'')
      | Some income \<Rightarrow>
          if income < 0 then Inr (Invalid_Input ''Error: Invalid income input!'')
          else
            (let (old_tax, old_df) = calculate_new_regime_2024_25 income;
                 (new_tax, new_df) = calculate_new_regime_2025_26 income;
                 savings = old_tax - new_tax
             in case py_truediv savings old_tax of
                  Inl e \<Rightarrow> Inl e
                | Inr q \<Rightarrow>
                    Inr (Results
                      \<lparr>Recommendation = recommendation savings,
                       Tax_Old = old_tax,
                       Tax_New = new_tax,
                       Total_Savings = savings,
                       Savings_Percent = q * 100,
                       Old_Table = old_df,
                       Old_Grand_Total = grand_total old_df,
                       New_Table = new_df,
                       New_Grand_Total = grand_total new_df,
                       Savings_Table = bracket_savings income\<rparr>)))"

text \<open>The savings table of a return, when the function returned one.\<close>

definition savings_table_of :: "py_error + calculator_return \<Rightarrow> bracket_row list option" where
  "savings_table_of ret =
     (case ret of
        Inl e \<Rightarrow> None
      | Inr (Invalid_Input msg) \<Rightarrow> None
      | Inr (Results r) \<Rightarrow> Some (Savings_Table r))"

subsection \<open>Proof devices: well-formed tables and the closed form of the walk\<close>

text \<open>
  A table is well formed from lower bound \<open>p\<close> when its finite bounds increase
  strictly from \<open>p\<close>, its rates are not negative and its last slab is unbounded.
  Both tables of the program are.
\<close>

fun table_ok :: "real \<Rightarrow> (slab_bound \<times> real) list \<Rightarrow> bool" where
  "table_ok p [] = False"
| "table_ok p ((Upto s, r) # slabs) = (p < s \<and> 0 \<le> r \<and> table_ok s slabs)"
| "table_ok p ((Unbounded, r) # slabs) = (0 \<le> r \<and> slabs = [])"

text \<open>The tax of a well-formed table in closed form: each slab taxes the part of the income inside it.\<close>

fun slab_sum :: "real \<Rightarrow> real \<Rightarrow> (slab_bound \<times> real) list \<Rightarrow> real" where
  "slab_sum t p [] = 0"
| "slab_sum t p ((Upto s, r) # slabs) = max 0 (min t s - p) * r + slab_sum t s slabs"
| "slab_sum t p ((Unbounded, r) # slabs) = max 0 (t - p) * r"

text \<open>
  Each slab of a table with its lower bound, the upper bound of the slab before it
  (\<open>p\<close> for the first): the value \<^verbatim>\<open>prev_slab\<close> has when the walk reaches the slab
  having entered every slab before it.
\<close>

fun slab_ranges :: "real \<Rightarrow> (slab_bound \<times> real) list \<Rightarrow> (real \<times> slab_bound \<times> real) list" where
  "slab_ranges p [] = []"
| "slab_ranges p ((Upto s, r) # slabs) = (p, Upto s, r) # slab_ranges s slabs"
| "slab_ranges p ((Unbounded, r) # slabs) = [(p, Unbounded, r)]"

section \<open>The walk of a well-formed table\<close>

subsection \<open>Slabs that are not entered\<close>

lemma loop_unbounded: "calculate_tax_loop t slabs (tax, Unbounded, bd) = (tax, bd)"
  by (induction slabs) auto

lemma loop_not_entered: "t \<le> p \<Longrightarrow> calculate_tax_loop t slabs (tax, Upto p, bd) = (tax, bd)"
  by (induction slabs) auto

lemma loop_extends:
  "\<exists>ys. snd (calculate_tax_loop t slabs (tax, prev, bd)) = bd @ ys"
proof (induction slabs arbitrary: tax prev bd)
  case Nil
  show ?case by simp
next
  case (Cons a slabs)
  obtain slab rate where a: "a = (slab, rate)" by (cases a)
  show ?case
  proof (cases prev)
    case Unbounded
    with a Cons [of tax Unbounded bd] show ?thesis by simp
  next
    case (Upto p)
    show ?thesis
    proof (cases "t > p")
      case True
      let ?x = "(min_bound t slab - p) * rate"
      let ?l = "\<lparr>Slab_Range = (Upto p, slab), Taxable_Amount = min_bound t slab - p,
                  Rate = rate, Tax = ?x\<rparr>"
      obtain ys where "snd (calculate_tax_loop t slabs (tax + ?x, slab, bd @ [?l])) = (bd @ [?l]) @ ys"
        using Cons [of "tax + ?x" slab "bd @ [?l]"] by blast
      then show ?thesis using a Upto True by (simp add: Let_def)
    next
      case False
      with a Upto Cons [of tax prev bd] show ?thesis by simp
    qed
  qed
qed

subsection \<open>The lines of the breakdown\<close>

lemma slab_ranges_not_entered:
  "table_ok p slabs \<Longrightarrow> t \<le> p \<Longrightarrow> filter (\<lambda>(lo, hi, r). lo < t) (slab_ranges p slabs) = []"
  by (induction p slabs rule: table_ok.induct) auto

lemma loop_breakdown:
  "table_ok p slabs \<Longrightarrow>
   snd (calculate_tax_loop t slabs (tax, Upto p, bd)) =
     bd @ map (\<lambda>(lo, hi, r). \<lparr>Slab_Range = (Upto lo, hi), Taxable_Amount = min_bound t hi - lo,
                                Rate = r, Tax = (min_bound t hi - lo) * r\<rparr>)
              (filter (\<lambda>(lo, hi, r). lo < t) (slab_ranges p slabs))"
proof (induction p slabs arbitrary: tax bd rule: table_ok.induct)
  case (1 p)
  then show ?case by simp
next
  case (2 p s r slabs)
  show ?case
  proof (cases "t > p")
    case True
    with 2 show ?thesis by (simp add: Let_def)
  next
    case False
    with 2 show ?thesis by (simp add: loop_not_entered slab_ranges_not_entered)
  qed
next
  case (3 p r slabs)
  then show ?case by (simp add: Let_def loop_unbounded)
qed

subsection \<open>Total tax in closed form\<close>

lemma slab_sum_zero: "table_ok p slabs \<Longrightarrow> t \<le> p \<Longrightarrow> slab_sum t p slabs = 0"
  by (induction p slabs rule: table_ok.induct) auto

lemma loop_tax:
  "table_ok p slabs \<Longrightarrow>
   fst (calculate_tax_loop t slabs (tax, Upto p, bd)) = tax + slab_sum t p slabs"
proof (induction p slabs arbitrary: tax bd rule: table_ok.induct)
  case (1 p)
  then show ?case by simp
next
  case (2 p s r slabs)
  show ?case
  proof (cases "t > p")
    case True
    with 2 show ?thesis by (simp add: min_bound_def Let_def max_def min_def)
  next
    case False
    with 2 show ?thesis by (simp add: loop_not_entered slab_sum_zero)
  qed
next
  case (3 p r slabs)
  then show ?case by (simp add: min_bound_def Let_def loop_unbounded max_def)
qed

lemma slab_sum_mono:
  "table_ok p slabs \<Longrightarrow> t1 \<le> t2 \<Longrightarrow> slab_sum t1 p slabs \<le> slab_sum t2 p slabs"
proof (induction p slabs rule: table_ok.induct)
  case (2 p s r slabs)
  have "max 0 (min t1 s - p) \<le> max 0 (min t2 s - p)" using 2(3) by auto
  then have "max 0 (min t1 s - p) * r \<le> max 0 (min t2 s - p) * r"
    using 2(2) by (simp add: mult_right_mono)
  with 2 show ?case by simp
next
  case (3 p r slabs)
  have "max 0 (t1 - p) \<le> max 0 (t2 - p)" using 3(2) by auto
  then show ?case using 3(1) by (simp add: mult_right_mono)
qed simp

lemma slab_sum_nonneg: "table_ok p slabs \<Longrightarrow> 0 \<le> slab_sum t p slabs"
  by (induction p slabs rule: table_ok.induct) auto

subsection \<open>Column sums of the breakdown\<close>

lemma loop_tax_sum:
  "fst (calculate_tax_loop t slabs (tax, prev, bd))
     = tax + (sum_list (map Tax (snd (calculate_tax_loop t slabs (tax, prev, bd))))
              - sum_list (map Tax bd))"
proof (induction slabs arbitrary: tax prev bd)
  case Nil
  show ?case by simp
next
  case (Cons a slabs)
  obtain slab rate where a: "a = (slab, rate)" by (cases a)
  show ?case
  proof (cases prev)
    case Unbounded
    with a Cons [of tax Unbounded bd] show ?thesis by simp
  next
    case (Upto p)
    show ?thesis
    proof (cases "t > p")
      case True
      let ?x = "(min_bound t slab - p) * rate"
      let ?l = "\<lparr>Slab_Range = (Upto p, slab), Taxable_Amount = min_bound t slab - p,
                  Rate = rate, Tax = ?x\<rparr>"
      have step: "calculate_tax_loop t (a # slabs) (tax, prev, bd)
                    = calculate_tax_loop t slabs (tax + ?x, slab, bd @ [?l])"
        using a Upto True by (simp add: Let_def)
      have "fst (calculate_tax_loop t slabs (tax + ?x, slab, bd @ [?l]))
              = tax + ?x + (sum_list (map Tax (snd (calculate_tax_loop t slabs (tax + ?x, slab, bd @ [?l]))))
                            - sum_list (map Tax (bd @ [?l])))"
        by (rule Cons)
      then show ?thesis unfolding step by simp
    next
      case False
      with a Upto Cons [of tax prev bd] show ?thesis by simp
    qed
  qed
qed

lemma loop_amount_sum:
  "table_ok p slabs \<Longrightarrow>
   sum_list (map Taxable_Amount (snd (calculate_tax_loop t slabs (tax, Upto p, bd))))
     = sum_list (map Taxable_Amount bd) + max 0 (t - p)"
proof (induction p slabs arbitrary: tax bd rule: table_ok.induct)
  case (2 p s r slabs)
  show ?case
  proof (cases "t > p")
    case True
    with 2 show ?thesis by (simp add: min_bound_def Let_def max_def min_def)
  next
    case False
    then show ?thesis by (simp add: loop_not_entered)
  qed
next
  case (3 p r slabs)
  then show ?case by (simp add: min_bound_def Let_def loop_unbounded max_def)
qed simp

lemma loop_amount_pos:
  "table_ok p slabs \<Longrightarrow> list_all (\<lambda>l. 0 < Taxable_Amount l) bd \<Longrightarrow>
   list_all (\<lambda>l. 0 < Taxable_Amount l) (snd (calculate_tax_loop t slabs (tax, Upto p, bd)))"
proof (induction p slabs arbitrary: tax bd rule: table_ok.induct)
  case (2 p s r slabs)
  show ?case
  proof (cases "t > p")
    case True
    with 2 show ?thesis by (simp add: min_bound_def Let_def)
  next
    case False
    with 2 show ?thesis by (simp add: loop_not_entered)
  qed
next
  case (3 p r slabs)
  then show ?case by (simp add: min_bound_def Let_def loop_unbounded)
qed simp

subsection \<open>The two tables of the program\<close>

lemma table_ok_2024_25: "table_ok 0 slabs_2024_25"
  by (simp add: slabs_2024_25_def)

lemma table_ok_2025_26: "table_ok 0 slabs_2025_26"
  by (simp add: slabs_2025_26_def)

lemma tax_2024_25_closed:
  "fst (calculate_new_regime_2024_25 income) = slab_sum (max (income - 75000) 0) 0 slabs_2024_25"
  by (simp add: calculate_new_regime_2024_25_def calculate_tax_def loop_tax table_ok_2024_25)

lemma tax_2025_26_closed:
  "fst (calculate_new_regime_2025_26 income) = slab_sum (max (income - 75000) 0) 0 slabs_2025_26"
  by (simp add: calculate_new_regime_2025_26_def calculate_tax_def loop_tax table_ok_2025_26)

lemma slab_sum_regimes_le: "slab_sum t 0 slabs_2025_26 \<le> slab_sum t 0 slabs_2024_25"
proof -
  consider "t \<le> 300000" | "300000 < t" "t \<le> 400000" | "400000 < t" "t \<le> 700000"
    | "700000 < t" "t \<le> 800000" | "800000 < t" "t \<le> 1000000"
    | "1000000 < t" "t \<le> 1200000" | "1200000 < t" "t \<le> 1500000"
    | "1500000 < t" "t \<le> 1600000" | "1600000 < t" "t \<le> 2000000"
    | "2000000 < t" "t \<le> 2400000" | "2400000 < t"
    by linarith
  then show ?thesis
    by cases (simp_all add: slabs_2024_25_def slabs_2025_26_def diff_divide_distrib)
qed

lemma slab_sum_2024_25_zero_iff: "slab_sum t 0 slabs_2024_25 = 0 \<longleftrightarrow> t \<le> 300000"
proof -
  consider "t \<le> 300000" | "300000 < t" "t \<le> 700000"
    | "700000 < t" "t \<le> 1000000"
    | "1000000 < t" "t \<le> 1200000" | "1200000 < t" "t \<le> 1500000"
    | "1500000 < t"
    by linarith
  then show ?thesis
    by cases (simp_all add: slabs_2024_25_def diff_divide_distrib)
qed

lemma tax_2024_25_zero_iff:
  "fst (calculate_new_regime_2024_25 income) = 0 \<longleftrightarrow> income \<le> 375000"
  unfolding tax_2024_25_closed slab_sum_2024_25_zero_iff by auto

subsection \<open>\<^verbatim>\<open>range\<close> with a positive step\<close>

lemma py_range_eq:
  "0 < step \<Longrightarrow>
   py_range i stop step = map (\<lambda>k. i + int k * step) [0..<nat ((stop - i + step - 1) div step)]"
proof (induction i stop step rule: py_range.induct)
  case (1 i stop step)
  show ?case
  proof (cases "i < stop")
    case True
    let ?n = "nat ((stop - (i + step) + step - 1) div step)"
    have "(stop - i + step - 1) div step = (stop - i - 1) div step + 1"
      using 1(2) div_add_self2 [of step "stop - i - 1"] by (simp add: algebra_simps)
    moreover have "0 \<le> (stop - i - 1) div step"
      using True 1(2) by (simp add: pos_imp_zdiv_nonneg_iff)
    ultimately have n: "nat ((stop - i + step - 1) div step) = Suc ?n"
      by (simp add: nat_add_distrib)
    have "py_range i stop step = i # py_range (i + step) stop step"
      using True 1(2) by (simp add: py_range.simps [of i])
    also have "py_range (i + step) stop step = map (\<lambda>k. i + step + int k * step) [0..<?n]"
      using 1 True by simp
    also have "i # map (\<lambda>k. i + step + int k * step) [0..<?n]
                 = map (\<lambda>k. i + int k * step) [0..<Suc ?n]"
      by (simp add: upt_conv_Cons map_Suc_upt [symmetric] comp_def algebra_simps del: upt_Suc)
    finally show ?thesis unfolding n .
  next
    case False
    then have "(stop - i + step - 1) div step \<le> 0"
      using 1(2) pos_imp_zdiv_pos_iff [of step "stop - i + step - 1"] by simp
    with False show ?thesis by (simp add: py_range.simps [of i])
  qed
qed

lemma py_int_nonneg: "0 \<le> income \<Longrightarrow> 0 \<le> py_int income"
  by (simp add: py_int_def)

lemma first_boundary:
  fixes m :: int
  assumes "0 \<le> m"
  defines "n \<equiv> nat ((m + 99999) div 100000)"
  shows "py_range 0 (m + 100000) 100000 = map (\<lambda>k. int k * 100000) [0..<Suc n]"
    and "m \<le> int n * 100000"
    and "\<forall>k<n. int k * 100000 < m"
proof -
  let ?q = "(m + 99999) div 100000"
  let ?r = "(m + 99999) mod 100000"
  have q0: "0 \<le> ?q" using assms(1) by (simp add: pos_imp_zdiv_nonneg_iff)
  then have n: "int n = ?q" by (simp add: n_def)
  have split: "m + 99999 = ?q * 100000 + ?r" by simp
  have r: "0 \<le> ?r" "?r < 100000" by simp_all
  have "(m + 100000 - 0 + 100000 - 1) div 100000 = ?q + 1"
    using div_add_self2 [of 100000 "m + 99999"] by (simp add: algebra_simps)
  then have "nat ((m + 100000 - 0 + 100000 - 1) div 100000) = Suc n"
    using q0 by (simp add: n_def nat_add_distrib)
  then show "py_range 0 (m + 100000) 100000 = map (\<lambda>k. int k * 100000) [0..<Suc n]"
    using py_range_eq [of 100000 0 "m + 100000"] by simp
  show "m \<le> int n * 100000" using split r n by linarith
  show "\<forall>k<n. int k * 100000 < m"
  proof (intro allI impI)
    fix k assume "k < n"
    then have "int k + 1 \<le> ?q" using n by linarith
    then have "(int k + 1) * 100000 \<le> ?q * 100000" by (simp only: mult_right_mono)
    then show "int k * 100000 < m" using split r by (simp add: algebra_simps)
  qed
qed

section \<open>Worked values\<close>

lemma calculate_new_regime_2024_25_1500000:
  "calculate_new_regime_2024_25 1500000 =
     (125000,
      [\<lparr>Slab_Range = (Upto 0, Upto 300000), Taxable_Amount = 300000, Rate = 0, Tax = 0\<rparr>,
       \<lparr>Slab_Range = (Upto 300000, Upto 700000), Taxable_Amount = 400000, Rate = 0.05, Tax = 20000\<rparr>,
       \<lparr>Slab_Range = (Upto 700000, Upto 1000000), Taxable_Amount = 300000, Rate = 0.10, Tax = 30000\<rparr>,
       \<lparr>Slab_Range = (Upto 1000000, Upto 1200000), Taxable_Amount = 200000, Rate = 0.15, Tax = 30000\<rparr>,
       \<lparr>Slab_Range = (Upto 1200000, Upto 1500000), Taxable_Amount = 225000, Rate = 0.20, Tax = 45000\<rparr>])"
  by (simp add: calculate_new_regime_2024_25_def calculate_tax_def slabs_2024_25_def min_bound_def)

lemma calculate_new_regime_2025_26_1500000:
  "calculate_new_regime_2025_26 1500000 =
     (93750,
      [\<lparr>Slab_Range = (Upto 0, Upto 400000), Taxable_Amount = 400000, Rate = 0, Tax = 0\<rparr>,
       \<lparr>Slab_Range = (Upto 400000, Upto 800000), Taxable_Amount = 400000, Rate = 0.05, Tax = 20000\<rparr>,
       \<lparr>Slab_Range = (Upto 800000, Upto 1200000), Taxable_Amount = 400000, Rate = 0.10, Tax = 40000\<rparr>,
       \<lparr>Slab_Range = (Upto 1200000, Upto 1600000), Taxable_Amount = 225000, Rate = 0.15, Tax = 33750\<rparr>])"
  by (simp add: calculate_new_regime_2025_26_def calculate_tax_def slabs_2025_26_def min_bound_def)

section \<open>The division by the 2024-25 tax\<close>

text \<open>
  The 2024-25 tax is zero exactly for the incomes up to 375,000
  (\<open>tax_2024_25_zero_iff\<close>), and for each of them the percentage
  \<^verbatim>\<open>savings/old_tax*100\<close> divides by zero.
\<close>

lemma zero_tax_raises:
  assumes "0 \<le> income" "fst (calculate_new_regime_2024_25 income) = 0"
  shows "tax_calculator (Some income) = Inl ZeroDivisionError"
  using assms by (auto simp add: tax_calculator_def py_truediv_def Let_def split: prod.splits)

lemma low_income_raises:
  "0 \<le> income \<Longrightarrow> income \<le> 375000 \<Longrightarrow> tax_calculator (Some income) = Inl ZeroDivisionError"
  by (simp add: zero_tax_raises tax_2024_25_zero_iff)

text \<open>Above 375,000 the function returns, and its savings table is the sweep below.\<close>

lemma high_income_returns:
  assumes "375000 < income"
  shows "\<exists>r. tax_calculator (Some income) = Inr (Results r) \<and>
             Savings_Table r = bracket_savings income"
proof -
  have "fst (calculate_new_regime_2024_25 income) \<noteq> 0"
    using assms by (simp add: tax_2024_25_zero_iff)
  with assms show ?thesis
    by (auto simp add: tax_calculator_def py_truediv_def Let_def split: prod.splits)
qed

text \<open>
  C1. The claim: when the 2024-25 tax is 0, the comparison handles the percentage as a
  defined special case and raises no division-by-zero error. The program has no such
  case. At income 0 the 2024-25 tax is 0 and \<^verbatim>\<open>tax_calculator\<close> ends in
  ZeroDivisionError instead of returning.
\<close>

theorem zero_income_raises_ZeroDivisionError:
  "fst (calculate_new_regime_2024_25 0) = 0 \<and> tax_calculator (Some 0) = Inl ZeroDivisionError"
  by (simp add: tax_calculator_def py_truediv_def
      calculate_new_regime_2024_25_def calculate_new_regime_2025_26_def calculate_tax_def
      slabs_2024_25_def slabs_2025_26_def)

section \<open>The breakdown\<close>

text \<open>
  C2, as the program has it. At income 0 either regime returns total tax 0 and an
  empty breakdown: the guard \<^verbatim>\<open>income > prev_slab\<close> is strict, so with taxable
  income 0 not even the first slab is entered. For every income the breakdown has
  exactly one line for each slab that is entered, the slabs whose lower bound is below
  the taxable income, in the table's order: the line holds the slab's range, the part
  of the taxable income inside it, its rate and their product. The line is there
  whatever the product: for every income above 75,000 the breakdown starts with the
  zero-rate slab, its taxable amount and the tax 0.
\<close>

theorem zero_income_empty_breakdown:
  "calculate_new_regime_2024_25 0 = (0, []) \<and>
   calculate_new_regime_2025_26 0 = (0, []) \<and>
   snd (calculate_new_regime_2024_25 income) =
     map (\<lambda>(lo, hi, r). \<lparr>Slab_Range = (Upto lo, hi),
                           Taxable_Amount = min_bound (max (income - 75000) 0) hi - lo,
                           Rate = r,
                           Tax = (min_bound (max (income - 75000) 0) hi - lo) * r\<rparr>)
         (filter (\<lambda>(lo, hi, r). lo < max (income - 75000) 0)
            [(0, Upto 300000, 0), (300000, Upto 700000, 0.05), (700000, Upto 1000000, 0.10),
             (1000000, Upto 1200000, 0.15), (1200000, Upto 1500000, 0.20),
             (1500000, Unbounded, 0.30)]) \<and>
   snd (calculate_new_regime_2025_26 income) =
     map (\<lambda>(lo, hi, r). \<lparr>Slab_Range = (Upto lo, hi),
                           Taxable_Amount = min_bound (max (income - 75000) 0) hi - lo,
                           Rate = r,
                           Tax = (min_bound (max (income - 75000) 0) hi - lo) * r\<rparr>)
         (filter (\<lambda>(lo, hi, r). lo < max (income - 75000) 0)
            [(0, Upto 400000, 0), (400000, Upto 800000, 0.05), (800000, Upto 1200000, 0.10),
             (1200000, Upto 1600000, 0.15), (1600000, Upto 2000000, 0.20),
             (2000000, Upto 2400000, 0.25), (2400000, Unbounded, 0.30)]) \<and>
   (75000 < income \<longrightarrow>
     (\<exists>rest. snd (calculate_new_regime_2024_25 income) =
        \<lparr>Slab_Range = (Upto 0, Upto 300000), Taxable_Amount = min (income - 75000) 300000,
         Rate = 0, Tax = 0\<rparr> # rest) \<and>
     (\<exists>rest. snd (calculate_new_regime_2025_26 income) =
        \<lparr>Slab_Range = (Upto 0, Upto 400000), Taxable_Amount = min (income - 75000) 400000,
         Rate = 0, Tax = 0\<rparr> # rest))"
proof -
  let ?t = "max (income - 75000) 0"
  have a: "snd (calculate_new_regime_2024_25 income) =
     map (\<lambda>(lo, hi, r). \<lparr>Slab_Range = (Upto lo, hi), Taxable_Amount = min_bound ?t hi - lo,
                           Rate = r, Tax = (min_bound ?t hi - lo) * r\<rparr>)
         (filter (\<lambda>(lo, hi, r). lo < ?t) (slab_ranges 0 slabs_2024_25))"
    using loop_breakdown [OF table_ok_2024_25, of ?t 0 "[]"]
    by (simp add: calculate_new_regime_2024_25_def calculate_tax_def)
  have b: "snd (calculate_new_regime_2025_26 income) =
     map (\<lambda>(lo, hi, r). \<lparr>Slab_Range = (Upto lo, hi), Taxable_Amount = min_bound ?t hi - lo,
                           Rate = r, Tax = (min_bound ?t hi - lo) * r\<rparr>)
         (filter (\<lambda>(lo, hi, r). lo < ?t) (slab_ranges 0 slabs_2025_26))"
    using loop_breakdown [OF table_ok_2025_26, of ?t 0 "[]"]
    by (simp add: calculate_new_regime_2025_26_def calculate_tax_def)
  have a': "slab_ranges 0 slabs_2024_25 =
            [(0, Upto 300000, 0), (300000, Upto 700000, 0.05), (700000, Upto 1000000, 0.10),
             (1000000, Upto 1200000, 0.15), (1200000, Upto 1500000, 0.20),
             (1500000, Unbounded, 0.30)]"
    by (simp add: slabs_2024_25_def)
  have b': "slab_ranges 0 slabs_2025_26 =
            [(0, Upto 400000, 0), (400000, Upto 800000, 0.05), (800000, Upto 1200000, 0.10),
             (1200000, Upto 1600000, 0.15), (1600000, Upto 2000000, 0.20),
             (2000000, Upto 2400000, 0.25), (2400000, Unbounded, 0.30)]"
    by (simp add: slabs_2025_26_def)
  have z1: "calculate_new_regime_2024_25 0 = (0, [])"
    by (simp add: calculate_new_regime_2024_25_def calculate_tax_def slabs_2024_25_def)
  have z2: "calculate_new_regime_2025_26 0 = (0, [])"
    by (simp add: calculate_new_regime_2025_26_def calculate_tax_def slabs_2025_26_def)
  have h: "75000 < income \<longrightarrow>
     (\<exists>rest. snd (calculate_new_regime_2024_25 income) =
        \<lparr>Slab_Range = (Upto 0, Upto 300000), Taxable_Amount = min (income - 75000) 300000,
         Rate = 0, Tax = 0\<rparr> # rest) \<and>
     (\<exists>rest. snd (calculate_new_regime_2025_26 income) =
        \<lparr>Slab_Range = (Upto 0, Upto 400000), Taxable_Amount = min (income - 75000) 400000,
         Rate = 0, Tax = 0\<rparr> # rest)"
    unfolding a b a' b' by (simp add: min_bound_def)
  show ?thesis using z1 z2 h a [unfolded a'] b [unfolded b'] by blast
qed

text \<open>
  At income 1,500,000 the taxable income is 1,425,000: five slabs of the 2024-25 table
  and four of the 2025-26 table are entered, and each has its line.
\<close>

theorem zero_income_empty_breakdown_witness:
  "(75000::real) < 1500000 \<and>
   calculate_new_regime_2024_25 0 = (0, []) \<and>
   calculate_new_regime_2025_26 0 = (0, []) \<and>
   snd (calculate_new_regime_2024_25 1500000) =
     [\<lparr>Slab_Range = (Upto 0, Upto 300000), Taxable_Amount = 300000, Rate = 0, Tax = 0\<rparr>,
      \<lparr>Slab_Range = (Upto 300000, Upto 700000), Taxable_Amount = 400000, Rate = 0.05, Tax = 20000\<rparr>,
      \<lparr>Slab_Range = (Upto 700000, Upto 1000000), Taxable_Amount = 300000, Rate = 0.10, Tax = 30000\<rparr>,
      \<lparr>Slab_Range = (Upto 1000000, Upto 1200000), Taxable_Amount = 200000, Rate = 0.15, Tax = 30000\<rparr>,
      \<lparr>Slab_Range = (Upto 1200000, Upto 1500000), Taxable_Amount = 225000, Rate = 0.20, Tax = 45000\<rparr>] \<and>
   snd (calculate_new_regime_2025_26 1500000) =
     [\<lparr>Slab_Range = (Upto 0, Upto 400000), Taxable_Amount = 400000, Rate = 0, Tax = 0\<rparr>,
      \<lparr>Slab_Range = (Upto 400000, Upto 800000), Taxable_Amount = 400000, Rate = 0.05, Tax = 20000\<rparr>,
      \<lparr>Slab_Range = (Upto 800000, Upto 1200000), Taxable_Amount = 400000, Rate = 0.10, Tax = 40000\<rparr>,
      \<lparr>Slab_Range = (Upto 1200000, Upto 1600000), Taxable_Amount = 225000, Rate = 0.15, Tax = 33750\<rparr>]"
  using zero_income_empty_breakdown [of 1500000]
  by (simp add: min_bound_def)

text \<open>
  C2 as stated asks for exactly one line at income 0; the breakdown there has none.
\<close>

theorem zero_income_breakdown_counterexample:
  "snd (calculate_new_regime_2024_25 0) = [] \<and>
   length (snd (calculate_new_regime_2024_25 0)) \<noteq> 1 \<and>
   snd (calculate_new_regime_2025_26 0) = [] \<and>
   length (snd (calculate_new_regime_2025_26 0)) \<noteq> 1"
  by (simp add: calculate_new_regime_2024_25_def calculate_new_regime_2025_26_def calculate_tax_def
      slabs_2024_25_def slabs_2025_26_def)

text \<open>
  C4. For every income \<open>I \<ge> 0\<close> and either table, the \<^verbatim>\<open>Tax\<close> column of the
  breakdown sums to the returned total tax, and the total tax is not negative.
\<close>

theorem breakdown_tax_sums_to_total:
  "0 \<le> income \<Longrightarrow>
   sum_list (map Tax (snd (calculate_new_regime_2024_25 income)))
     = fst (calculate_new_regime_2024_25 income) \<and>
   0 \<le> fst (calculate_new_regime_2024_25 income) \<and>
   sum_list (map Tax (snd (calculate_new_regime_2025_26 income)))
     = fst (calculate_new_regime_2025_26 income) \<and>
   0 \<le> fst (calculate_new_regime_2025_26 income)"
proof -
  let ?t = "max (income - 75000) 0"
  have "fst (calculate_tax ?t slabs) = sum_list (map Tax (snd (calculate_tax ?t slabs)))" for slabs
    using loop_tax_sum [of ?t slabs 0 "Upto 0" "[]"] by (simp add: calculate_tax_def)
  moreover have "0 \<le> fst (calculate_new_regime_2024_25 income)"
    by (simp add: tax_2024_25_closed slab_sum_nonneg table_ok_2024_25)
  moreover have "0 \<le> fst (calculate_new_regime_2025_26 income)"
    by (simp add: tax_2025_26_closed slab_sum_nonneg table_ok_2025_26)
  ultimately show ?thesis
    by (simp add: calculate_new_regime_2024_25_def calculate_new_regime_2025_26_def)
qed

theorem breakdown_tax_sums_to_total_witness:
  "(0::real) \<le> 1500000 \<and>
   sum_list (map Tax (snd (calculate_new_regime_2024_25 1500000))) = 125000 \<and>
   fst (calculate_new_regime_2024_25 1500000) = 125000 \<and>
   sum_list (map Tax (snd (calculate_new_regime_2025_26 1500000))) = 93750 \<and>
   fst (calculate_new_regime_2025_26 1500000) = 93750"
  using breakdown_tax_sums_to_total [of 1500000]
  by (simp add: calculate_new_regime_2024_25_def calculate_new_regime_2025_26_def calculate_tax_def
      slabs_2024_25_def slabs_2025_26_def min_bound_def)

text \<open>
  C10. For every income \<open>\<ge> 0\<close> and either table, the \<^verbatim>\<open>Taxable Amount\<close> column
  of the breakdown sums to \<open>max (income - 75,000) 0\<close>, and every line's taxable
  amount is strictly positive.
\<close>

theorem breakdown_partitions_taxable_income:
  "0 \<le> income \<Longrightarrow>
   sum_list (map Taxable_Amount (snd (calculate_new_regime_2024_25 income))) = max (income - 75000) 0 \<and>
   (\<forall>l \<in> set (snd (calculate_new_regime_2024_25 income)). 0 < Taxable_Amount l) \<and>
   sum_list (map Taxable_Amount (snd (calculate_new_regime_2025_26 income))) = max (income - 75000) 0 \<and>
   (\<forall>l \<in> set (snd (calculate_new_regime_2025_26 income)). 0 < Taxable_Amount l)"
proof -
  let ?t = "max (income - 75000) 0"
  have s: "sum_list (map Taxable_Amount (snd (calculate_tax ?t slabs))) = ?t"
    if "table_ok 0 slabs" for slabs
    using loop_amount_sum [OF that, of ?t 0 "[]"] by (simp add: calculate_tax_def)
  have p: "\<forall>l \<in> set (snd (calculate_tax ?t slabs)). 0 < Taxable_Amount l"
    if "table_ok 0 slabs" for slabs
    using loop_amount_pos [OF that, of "[]" ?t 0] by (simp add: calculate_tax_def list_all_iff)
  show ?thesis
    using s [OF table_ok_2024_25] s [OF table_ok_2025_26] p [OF table_ok_2024_25] p [OF table_ok_2025_26]
    by (simp add: calculate_new_regime_2024_25_def calculate_new_regime_2025_26_def)
qed

theorem breakdown_partitions_taxable_income_witness:
  "(0::real) \<le> 1500000 \<and>
   map Taxable_Amount (snd (calculate_new_regime_2024_25 1500000))
     = [300000, 400000, 300000, 200000, 225000] \<and>
   sum_list (map Taxable_Amount (snd (calculate_new_regime_2024_25 1500000))) = 1425000 \<and>
   list_all (\<lambda>l. 0 < Taxable_Amount l) (snd (calculate_new_regime_2024_25 1500000)) \<and>
   map Taxable_Amount (snd (calculate_new_regime_2025_26 1500000))
     = [400000, 400000, 400000, 225000] \<and>
   sum_list (map Taxable_Amount (snd (calculate_new_regime_2025_26 1500000))) = 1425000 \<and>
   list_all (\<lambda>l. 0 < Taxable_Amount l) (snd (calculate_new_regime_2025_26 1500000))"
  using breakdown_partitions_taxable_income [of 1500000]
  by (simp add: calculate_new_regime_2024_25_def calculate_new_regime_2025_26_def calculate_tax_def
      slabs_2024_25_def slabs_2025_26_def min_bound_def)

section \<open>The tax as a function of the income\<close>

text \<open>
  C5. Monotonicity: for all incomes \<open>0 \<le> I1 < I2\<close> and the same regime, the total
  tax at \<open>I1\<close> is at most the total tax at \<open>I2\<close>.
\<close>

theorem total_tax_monotone:
  "0 \<le> I1 \<Longrightarrow> I1 < I2 \<Longrightarrow>
   fst (calculate_new_regime_2024_25 I1) \<le> fst (calculate_new_regime_2024_25 I2) \<and>
   fst (calculate_new_regime_2025_26 I1) \<le> fst (calculate_new_regime_2025_26 I2)"
  by (simp add: tax_2024_25_closed tax_2025_26_closed slab_sum_mono
      table_ok_2024_25 table_ok_2025_26)

theorem total_tax_monotone_witness:
  "(0::real) \<le> 500000 \<and> (500000::real) < 1500000 \<and>
   fst (calculate_new_regime_2024_25 500000) = 6250 \<and>
   fst (calculate_new_regime_2024_25 1500000) = 125000 \<and>
   fst (calculate_new_regime_2024_25 500000) \<le> fst (calculate_new_regime_2024_25 1500000) \<and>
   fst (calculate_new_regime_2025_26 500000) = 1250 \<and>
   fst (calculate_new_regime_2025_26 1500000) = 93750 \<and>
   fst (calculate_new_regime_2025_26 500000) \<le> fst (calculate_new_regime_2025_26 1500000)"
  using total_tax_monotone [of 500000 1500000]
  by (simp add: calculate_new_regime_2024_25_def calculate_new_regime_2025_26_def calculate_tax_def
      slabs_2024_25_def slabs_2025_26_def min_bound_def)

text \<open>
  C6. At income 1,500,000 the 2024-25 tax is 125,000, the 2025-26 tax is 93,750, the
  savings are 31,250 and the recommendation is the 2025-26 regime.
\<close>

theorem income_1500000_comparison:
  "fst (calculate_new_regime_2024_25 1500000) = 125000 \<and>
   fst (calculate_new_regime_2025_26 1500000) = 93750 \<and>
   (\<exists>r. tax_calculator (Some 1500000) = Inr (Results r) \<and>
        Tax_Old r = 125000 \<and> Tax_New r = 93750 \<and> Total_Savings r = 31250 \<and>
        Recommendation r = ''Switch to 2025-26 Regime'')"
  by (simp add: tax_calculator_def py_truediv_def recommendation_def
      calculate_new_regime_2024_25_def calculate_new_regime_2025_26_def calculate_tax_def
      slabs_2024_25_def slabs_2025_26_def min_bound_def)

text \<open>
  C7. At the exemption boundary, income 75,000, the total tax is 0 under both tables.
\<close>

theorem exemption_boundary_zero_tax:
  "fst (calculate_new_regime_2024_25 75000) = 0 \<and> fst (calculate_new_regime_2025_26 75000) = 0"
  by (simp add: calculate_new_regime_2024_25_def calculate_new_regime_2025_26_def calculate_tax_def
      slabs_2024_25_def slabs_2025_26_def)

text \<open>
  C9. For every income \<open>\<ge> 0\<close> the 2025-26 tax is at most the 2024-25 tax, so the
  savings are never negative, and the recommendation to stay with 2024-25 is given
  only when the two taxes are equal.
\<close>

theorem regime_2025_26_never_costs_more:
  "0 \<le> income \<Longrightarrow>
   fst (calculate_new_regime_2025_26 income) \<le> fst (calculate_new_regime_2024_25 income) \<and>
   0 \<le> fst (calculate_new_regime_2024_25 income) - fst (calculate_new_regime_2025_26 income) \<and>
   (recommendation (fst (calculate_new_regime_2024_25 income) - fst (calculate_new_regime_2025_26 income))
      = ''Stick to 2024-25 Regime'' \<longrightarrow>
    fst (calculate_new_regime_2024_25 income) = fst (calculate_new_regime_2025_26 income))"
proof -
  have le: "fst (calculate_new_regime_2025_26 income) \<le> fst (calculate_new_regime_2024_25 income)"
    by (simp add: tax_2024_25_closed tax_2025_26_closed slab_sum_regimes_le)
  then show ?thesis
    by (auto simp add: recommendation_def split: if_splits)
qed

theorem regime_2025_26_never_costs_more_witness:
  "(0::real) \<le> 300000 \<and>
   fst (calculate_new_regime_2025_26 300000) \<le> fst (calculate_new_regime_2024_25 300000) \<and>
   recommendation (fst (calculate_new_regime_2024_25 300000) - fst (calculate_new_regime_2025_26 300000))
      = ''Stick to 2024-25 Regime'' \<and>
   fst (calculate_new_regime_2024_25 300000) = fst (calculate_new_regime_2025_26 300000)"
  using regime_2025_26_never_costs_more [of 300000]
  by (simp add: recommendation_def calculate_new_regime_2024_25_def calculate_new_regime_2025_26_def
      calculate_tax_def slabs_2024_25_def slabs_2025_26_def min_bound_def)

section \<open>Invalid input\<close>

text \<open>
  C8. For an income that is missing or negative, \<^verbatim>\<open>tax_calculator\<close> returns the
  error message at once: no tax is computed and the return carries no result.
\<close>

theorem invalid_income_short_circuits:
  "income_opt = None \<or> (\<exists>x. income_opt = Some x \<and> x < 0) \<Longrightarrow>
   tax_calculator income_opt = Inr (Invalid_Input ''Error: Invalid income input!'')"
  by (auto simp add: tax_calculator_def)

theorem invalid_income_short_circuits_witness:
  "tax_calculator None = Inr (Invalid_Input ''Error: Invalid income input!'') \<and>
   tax_calculator (Some (- 1)) = Inr (Invalid_Input ''Error: Invalid income input!'')"
  using invalid_income_short_circuits [of None] invalid_income_short_circuits [of "Some (- 1)"]
  by simp

section \<open>The bracket sweep\<close>

text \<open>The range of line 193 at income 250,000, which the program does not reach.\<close>

lemma income_brackets_250000: "income_brackets 250000 = [0, 100000, 200000, 300000]"
  by (simp add: income_brackets_def py_int_def py_range.simps)

text \<open>
  C3, as the program has it. Whenever \<^verbatim>\<open>tax_calculator\<close> returns its results, which
  it does for every income above 375,000, the savings table it returns has one row for
  each boundary of \<^verbatim>\<open>range(0, int(income) + 100_000, 100_000)\<close>: the boundaries 0,
  100,000, 200,000, ... up to and including the first boundary that is at least
  \<^verbatim>\<open>int(income)\<close>, the income truncated to a whole number. Each row holds the two
  taxes at the boundary itself and their difference.
\<close>

theorem tax_calculator_bracket_sweep:
  "375000 < income \<Longrightarrow>
   (\<exists>r n. tax_calculator (Some income) = Inr (Results r) \<and>
      map (fst \<circ> Income_Bracket) (Savings_Table r) = map (\<lambda>k. int k * 100000) [0..<Suc n] \<and>
      py_int income \<le> int n * 100000 \<and>
      (\<forall>k<n. int k * 100000 < py_int income) \<and>
      (\<forall>row \<in> set (Savings_Table r).
         Tax_2024_25 row = fst (calculate_new_regime_2024_25 (real_of_int (fst (Income_Bracket row)))) \<and>
         Tax_2025_26 row = fst (calculate_new_regime_2025_26 (real_of_int (fst (Income_Bracket row)))) \<and>
         Savings row = Tax_2024_25 row - Tax_2025_26 row))"
proof -
  assume inc: "375000 < income"
  then obtain r where r: "tax_calculator (Some income) = Inr (Results r)"
    and tab: "Savings_Table r = bracket_savings income"
    using high_income_returns by blast
  have m: "0 \<le> py_int income" using inc by (simp add: py_int_nonneg)
  obtain n where n: "income_brackets income = map (\<lambda>k. int k * 100000) [0..<Suc n]"
    "py_int income \<le> int n * 100000" "\<forall>k<n. int k * 100000 < py_int income"
    unfolding income_brackets_def using first_boundary [OF m] by blast
  have "map (fst \<circ> Income_Bracket) (bracket_savings income) = income_brackets income"
    by (simp add: bracket_savings_def comp_def Let_def)
  moreover have "\<forall>row \<in> set (bracket_savings income).
      Tax_2024_25 row = fst (calculate_new_regime_2024_25 (real_of_int (fst (Income_Bracket row)))) \<and>
      Tax_2025_26 row = fst (calculate_new_regime_2025_26 (real_of_int (fst (Income_Bracket row)))) \<and>
      Savings row = Tax_2024_25 row - Tax_2025_26 row"
    by (auto simp add: bracket_savings_def Let_def)
  ultimately show ?thesis using r tab n by (intro exI [of _ r] exI [of _ n]) simp
qed

text \<open>At income 450,000 the table has the six boundaries 0 to 500,000.\<close>

theorem tax_calculator_bracket_sweep_witness:
  "(375000::real) < 450000 \<and>
   savings_table_of (tax_calculator (Some 450000)) =
     Some [\<lparr>Income_Bracket = (0, 100000), Tax_2024_25 = 0, Tax_2025_26 = 0, Savings = 0\<rparr>,
           \<lparr>Income_Bracket = (100000, 200000), Tax_2024_25 = 0, Tax_2025_26 = 0, Savings = 0\<rparr>,
           \<lparr>Income_Bracket = (200000, 300000), Tax_2024_25 = 0, Tax_2025_26 = 0, Savings = 0\<rparr>,
           \<lparr>Income_Bracket = (300000, 400000), Tax_2024_25 = 0, Tax_2025_26 = 0, Savings = 0\<rparr>,
           \<lparr>Income_Bracket = (400000, 500000), Tax_2024_25 = 1250, Tax_2025_26 = 0, Savings = 1250\<rparr>,
           \<lparr>Income_Bracket = (500000, 600000), Tax_2024_25 = 6250, Tax_2025_26 = 1250, Savings = 5000\<rparr>] \<and>
   py_int 450000 \<le> 500000 \<and> 400000 < py_int 450000"
  using tax_calculator_bracket_sweep [of 450000]
  by (simp add: savings_table_of_def tax_calculator_def py_truediv_def
      income_brackets_def py_int_def py_range.simps bracket_savings_def Let_def
      calculate_new_regime_2024_25_def calculate_new_regime_2025_26_def calculate_tax_def
      slabs_2024_25_def slabs_2025_26_def min_bound_def)

text \<open>
  C3 as stated ends the sweep at the first boundary at or above the income itself, and
  names four boundaries at income 250,000. At income 400,000.5 the returned table ends
  at 400,000, below the income; at income 250,000 the function raises before the sweep
  and returns no table.
\<close>

theorem bracket_sweep_counterexample:
  "map_option (map (fst \<circ> Income_Bracket)) (savings_table_of (tax_calculator (Some 400000.5)))
     = Some [0, 100000, 200000, 300000, 400000] \<and>
   (400000::real) < 400000.5 \<and>
   tax_calculator (Some 250000) = Inl ZeroDivisionError \<and>
   savings_table_of (tax_calculator (Some 250000)) = None"
  by (simp add: savings_table_of_def tax_calculator_def py_truediv_def
      income_brackets_def py_int_def py_range.simps bracket_savings_def Let_def
      calculate_new_regime_2024_25_def calculate_new_regime_2025_26_def calculate_tax_def
      slabs_2024_25_def slabs_2025_26_def min_bound_def)

end
